theory Spec2Isabelle
  imports Complex_Main
begin

section \<open>The detection-mode controller \<open>ModoDeteccao\<close>\<close>

text \<open>
  The source is \<^verbatim>\<open>src/deteccao_lib/detector_pessoas_video.py\<close>. Times are the
  values of Python's \<^verbatim>\<open>time.time()\<close>; they are modelled as real numbers, so
  subtraction and comparison are exact. The mode is the string the source stores:
  the empty string before the first evaluation, then \<^verbatim>\<open>'detectando'\<close> (detecting),
  \<^verbatim>\<open>'rastreando'\<close> (tracking) or \<^verbatim>\<open>'parado'\<close> (stopped).
\<close>

text \<open>
  One call of \<^verbatim>\<open>atualiza_modo\<close> reads the clock at up to five places. Each place
  gets the reading the clock gave there: \<open>t_checagem\<close> is line 403
  (\<^verbatim>\<open>self.checagem_atual\<close>), \<open>t_parado\<close> line 406, \<open>t_sem_detectar\<close> line 408,
  \<open>t_marca\<close> the reading of line 437 or line 439 (at most one of the two is
  executed), and \<open>t_fim\<close> line 441.
\<close>

record leituras =
  t_checagem :: real
  t_parado :: real
  t_sem_detectar :: real
  t_marca :: real
  t_fim :: real

text \<open>
  The fields of a \<^verbatim>\<open>ModoDeteccao\<close> object. The field \<^verbatim>\<open>detector_movimento\<close> is a
  reference to the motion detector, a collaborator outside the source; its only
  use, \<^verbatim>\<open>houve_mudanca()\<close>, is an input of every evaluation. The attribute
  \<^verbatim>\<open>checagem_atual\<close> does not exist before the first evaluation.
\<close>

record ModoDeteccao =
  max_tempo_sem_deteccao :: real
  max_tempo_parado :: real
  max_tempo_sem_atualizar_modo :: real
  usar_rastreamento :: bool
  tempo_em_que_parou :: real
  tempo_ultima_deteccao :: real
  modo :: string
  modo_anterior :: string
  tempo_ultima_checagem :: real
  checagem_atual :: "real option"

text \<open>
  \<^verbatim>\<open>ModoDeteccao.__init__\<close> (lines 374 to 389). The three clock readings of
  lines 384, 385 and 389 are the arguments \<open>t1\<close>, \<open>t2\<close> and \<open>t3\<close>.
\<close>

definition ModoDeteccao_init ::
  "real \<Rightarrow> real \<Rightarrow> bool \<Rightarrow> real \<Rightarrow> real \<Rightarrow> real \<Rightarrow> real \<Rightarrow> ModoDeteccao" where
  "ModoDeteccao_init mtsd mtp ur mtsam t1 t2 t3 =
     \<lparr> max_tempo_sem_deteccao = mtsd,
       max_tempo_parado = mtp,
       max_tempo_sem_atualizar_modo = mtsam,
       usar_rastreamento = ur,
       tempo_em_que_parou = t1 - mtp,
       tempo_ultima_deteccao = t2 - mtsd,
       modo = [],
       modo_anterior = [],
       tempo_ultima_checagem = t3,
       checagem_atual = None \<rparr>"

text \<open>
  \<^verbatim>\<open>ModoDeteccao.atualiza_modo\<close> (lines 391 to 442). The argument \<open>houve_mudanca\<close>
  is what the motion detector answers at line 405. The value the source returns
  is the field \<open>modo\<close> of the state returned here.
\<close>

fun atualiza_modo :: "ModoDeteccao \<Rightarrow> bool \<Rightarrow> leituras \<Rightarrow> ModoDeteccao" where
  "atualiza_modo self houve_mudanca tm =
     (let self = self\<lparr>modo_anterior := modo self\<rparr>;
          self = self\<lparr>checagem_atual := Some (t_checagem tm)\<rparr>;
          teve_movimento = houve_mudanca;
          parado_demais =
            (t_parado tm - tempo_em_que_parou self \<ge> max_tempo_parado self);
          sem_detectar_demais =
            (t_sem_detectar tm - tempo_ultima_deteccao self
               \<ge> max_tempo_sem_deteccao self);
          max_tempo_checagem_excedido =
            (tempo_ultima_checagem self - the (checagem_atual self)
               > max_tempo_sem_atualizar_modo self);
          self =
            (if modo_anterior self = ''detectando'' then
               (if \<not> teve_movimento then self\<lparr>modo := ''parado''\<rparr>
                else if \<not> usar_rastreamento self \<or> max_tempo_checagem_excedido
                  then self\<lparr>modo := ''detectando''\<rparr>
                else self\<lparr>modo := ''rastreando''\<rparr>)
             else if modo_anterior self = ''parado'' then
               (if teve_movimento \<or> parado_demais
                  then self\<lparr>modo := ''detectando''\<rparr>
                else self\<lparr>modo := ''parado''\<rparr>)
             else if modo_anterior self = ''rastreando'' then
               (if \<not> teve_movimento \<or> sem_detectar_demais
                     \<or> max_tempo_checagem_excedido
                  then self\<lparr>modo := ''detectando''\<rparr>
                else self)
             else self\<lparr>modo := ''detectando''\<rparr>);
          self =
            (if modo self = ''parado'' \<and> modo_anterior self \<noteq> ''parado''
               then self\<lparr>tempo_em_que_parou := t_marca tm\<rparr>
             else if modo self = ''detectando''
               then self\<lparr>tempo_ultima_deteccao := t_marca tm\<rparr>
             else self)
      in self\<lparr>tempo_ultima_checagem := t_fim tm\<rparr>)"

text \<open>\<^verbatim>\<open>ModoDeteccao.mudou_modo\<close> (lines 444 to 450).\<close>

definition mudou_modo :: "ModoDeteccao \<Rightarrow> bool" where
  "mudou_modo self = (modo self \<noteq> modo_anterior self)"

text \<open>
  A sequence of evaluations, as the loop of \<^verbatim>\<open>run\<close> makes them: each element is
  the motion signal and the clock readings of one call.
\<close>

fun executa :: "ModoDeteccao \<Rightarrow> (bool \<times> leituras) list \<Rightarrow> ModoDeteccao" where
  "executa self [] = self"
| "executa self ((mv, tm) # es) = executa (atualiza_modo self mv tm) es"

text \<open>An evaluation that reads the same instant \<open>t\<close> at every place.\<close>

definition instante :: "real \<Rightarrow> leituras" where
  "instante t =
     \<lparr> t_checagem = t, t_parado = t, t_sem_detectar = t, t_marca = t, t_fim = t \<rparr>"

text \<open>The modes returned by the evaluations of such a sequence, in order.\<close>

fun modos :: "ModoDeteccao \<Rightarrow> (bool \<times> leituras) list \<Rightarrow> string list" where
  "modos self [] = []"
| "modos self ((mv, tm) # es) =
     modo (atualiza_modo self mv tm) # modos (atualiza_modo self mv tm) es"

text \<open>
  The scenario of mode checks spaced a tenth of a second apart, all with motion:
  the first \<open>n\<close> checks, the first of them at time \<open>t\<close>.
\<close>

definition checagens :: "real \<Rightarrow> nat \<Rightarrow> (bool \<times> leituras) list" where
  "checagens t n = map (\<lambda>k. (True, instante (t + real k / 10))) [0..<n]"


section \<open>The analysis thread \<open>DetectorPessoasVideo\<close>\<close>

text \<open>
  Python exceptions are values. \<open>ValueError\<close> carries the name of the parameter
  its message starts with. The video stream's \<^verbatim>\<open>read()\<close> fails with one of the two
  exceptions of \<^verbatim>\<open>videolib.exceptions\<close> that \<^verbatim>\<open>run\<close> catches; a failure of the
  person detector is any \<^verbatim>\<open>Exception\<close>, kept as the name of its type.
\<close>

datatype excecao = ValueError string

datatype erro_leitura = StreamClosedError | StreamStoppedError

type_synonym caixa = "int \<times> int \<times> int \<times> int"

text \<open>
  A video frame (a \<^verbatim>\<open>numpy.ndarray\<close>): its width \<^verbatim>\<open>frame.shape[1]\<close> and an opaque
  content. \<^verbatim>\<open>ktools.resize\<close> is outside the source; it is taken to return the frame
  at the width asked for.
\<close>

record imagem =
  largura :: int
  conteudo :: nat

definition resize :: "imagem \<Rightarrow> int \<Rightarrow> imagem" where
  "resize f w = f\<lparr>largura := w\<rparr>"

text \<open>
  Modelled from the spec: the class \<^verbatim>\<open>CaixasObjetos\<close> (the object registry) is
  imported by the source and is not part of it. Section 4.3 of the specification:
  a merge with the frozen flag keeps the boxes and scores held, a merge without
  it replaces them by the fresh ones, and in both cases the merge returns the
  boxes and scores held afterwards; a reset clears the registry; the count is the
  number of boxes held.
\<close>

record CaixasObjetos =
  caixas :: "caixa list"
  pesos :: "real list"

definition CaixasObjetos_init :: CaixasObjetos where
  "CaixasObjetos_init = \<lparr> caixas = [], pesos = [] \<rparr>"

definition reiniciar :: "CaixasObjetos \<Rightarrow> CaixasObjetos" where
  "reiniciar r = r\<lparr>caixas := [], pesos := []\<rparr>"

definition atualizar ::
  "CaixasObjetos \<Rightarrow> caixa list \<Rightarrow> real list \<Rightarrow> bool
     \<Rightarrow> (caixa list \<times> real list) \<times> CaixasObjetos" where
  "atualizar r cx ps caixas_paradas =
     (let r = (if caixas_paradas then r else r\<lparr>caixas := cx, pesos := ps\<rparr>)
      in ((caixas r, pesos r), r))"

definition pega_objetos :: "CaixasObjetos \<Rightarrow> caixa list" where
  "pega_objetos r = caixas r"

definition len :: "CaixasObjetos \<Rightarrow> nat" where
  "len r = length (caixas r)"

text \<open>
  Modelled from the spec: the class \<^verbatim>\<open>PessoasHistorico\<close> (the occupancy history) is
  imported by the source and is not part of it. Only what \<^verbatim>\<open>run\<close> hands to it is
  kept: the counts recorded by \<^verbatim>\<open>atualiza_periodo\<close>, the most recent last.
\<close>

type_synonym PessoasHistorico = "nat list"

definition atualiza_periodo :: "PessoasHistorico \<Rightarrow> nat \<Rightarrow> PessoasHistorico" where
  "atualiza_periodo h n = h @ [n]"

text \<open>
  The fields of a \<^verbatim>\<open>DetectorPessoasVideo\<close> object. Four of them bear the name of a
  field of \<open>ModoDeteccao\<close> in the source and are prefixed with \<open>dpv_\<close> here. The
  stream and the detector are collaborators outside the source: the object holds
  \<^verbatim>\<open>None\<close> or a reference to them, a number here.
\<close>

record DetectorPessoasVideo =
  dpv_usar_rastreamento :: bool
  dpv_max_tempo_sem_deteccao :: real
  dpv_max_tempo_parado :: real
  max_largura_frame :: int
  pessoas_historico :: PessoasHistorico
  pessoas_registradas :: CaixasObjetos
  frame :: "imagem option"
  stream :: "nat option"
  detectorPessoas :: "nat option"
  stopped :: bool
  stream_externo :: bool
  dpv_modo :: string

text \<open>
  \<^verbatim>\<open>DetectorPessoasVideo.__init__\<close> (lines 50 to 78): the three checks in the
  order of the source, then the fields.
\<close>

definition DetectorPessoasVideo_init ::
  "real \<Rightarrow> real \<Rightarrow> int \<Rightarrow> bool \<Rightarrow> excecao + DetectorPessoasVideo" where
  "DetectorPessoasVideo_init mtsd mtp mlf ur =
     (if mtsd < 0 then Inl (ValueError ''max_tempo_sem_deteccao'')
      else if mtp \<le> 0 then Inl (ValueError ''max_tempo_parado'')
      else if mlf \<le> 0 then Inl (ValueError ''max_largura_frame'')
      else Inr \<lparr> dpv_usar_rastreamento = ur,
                 dpv_max_tempo_sem_deteccao = mtsd,
                 dpv_max_tempo_parado = mtp,
                 max_largura_frame = mlf,
                 pessoas_historico = [],
                 pessoas_registradas = CaixasObjetos_init,
                 frame = None,
                 stream = None,
                 detectorPessoas = None,
                 stopped = False,
                 stream_externo = False,
                 dpv_modo = [] \<rparr>)"

text \<open>
  \<^verbatim>\<open>configura_video\<close> (lines 80 to 131) with a stream that could be opened,
  \<^verbatim>\<open>recebe_video\<close> (lines 133 to 145) with an object that is a video stream, and
  \<^verbatim>\<open>configura_detector\<close> (lines 147 to 175) with a detector that could be built.
\<close>

definition configura_video :: "DetectorPessoasVideo \<Rightarrow> nat \<Rightarrow> DetectorPessoasVideo" where
  "configura_video self s = self\<lparr>stream := Some s, stream_externo := False\<rparr>"

definition recebe_video :: "DetectorPessoasVideo \<Rightarrow> nat \<Rightarrow> DetectorPessoasVideo" where
  "recebe_video self s = self\<lparr>stream := Some s, stream_externo := True\<rparr>"

definition configura_detector :: "DetectorPessoasVideo \<Rightarrow> nat \<Rightarrow> DetectorPessoasVideo" where
  "configura_detector self d = self\<lparr>detectorPessoas := Some d\<rparr>"

text \<open>\<^verbatim>\<open>stop\<close> (lines 187 to 189).\<close>

definition stop :: "DetectorPessoasVideo \<Rightarrow> DetectorPessoasVideo" where
  "stop self = self\<lparr>stopped := True\<rparr>"

text \<open>\<^verbatim>\<open>_frame_tamanho_maximo\<close> (lines 341 to 342).\<close>

definition frame_tamanho_maximo :: "DetectorPessoasVideo \<Rightarrow> imagem \<Rightarrow> imagem" where
  "frame_tamanho_maximo self f = resize f (min (max_largura_frame self) (largura f))"

text \<open>
  The calls \<^verbatim>\<open>run\<close> makes to its collaborators and to the console, in the order
  it makes them.
\<close>

datatype evento =
    Print
  | StreamStart
  | Sleep
  | DetectorMovimentoStart
  | StreamRead
  | Detectar
  | RastreadorReiniciar
  | RastreadorAdiciona "caixa list"
  | RastreadorAtualiza
  | RegistroReiniciar
  | RegistroAtualizar "caixa list" "real list" bool
  | HistoricoAtualizaPeriodo nat
  | ForceMinimumLoopPeriod
  | DetectorMovimentoStop
  | StreamStop

text \<open>
  What the world answers during one iteration of the loop of \<^verbatim>\<open>run\<close>: the clock
  at line 217, the outcome of \<^verbatim>\<open>self.stream.read()\<close>, the motion signal and the
  clock readings of \<^verbatim>\<open>atualiza_modo\<close>, the outcome of
  \<^verbatim>\<open>self.detectorPessoas.detectar(frame)\<close> should it be called, the outcomes of
  the three calls to the tracker (lines 241, 242 and 246) should they be made,
  the clock at line 252, and whether another thread called \<^verbatim>\<open>stop()\<close> before
  the next test of the loop condition. A call of the detector or of the tracker
  that raises is answered by the name of the exception's type. The calls to the
  registry, the history, the motion detector, the resizing and the pacing are
  taken to return.
\<close>

record entrada =
  t_comeco :: real
  leitura :: "erro_leitura + imagem"
  movimento :: bool
  relogio :: leituras
  deteccao :: "string + caixa list \<times> real list"
  reinicio :: "string option"
  adicao :: "string option"
  rastreio :: "string + caixa list"
  t_registro :: real
  pedido_parada :: bool

definition MAX_TEMPO_ENTRE_REGISTROS :: real where
  "MAX_TEMPO_ENTRE_REGISTROS = 1"

text \<open>
  Lines 251 to 264 of \<^verbatim>\<open>run\<close>: the reset after a slow iteration, the merge into
  the registry, the published frame and mode, the count recorded in the history
  and the pacing of the loop.
\<close>

definition registra ::
  "DetectorPessoasVideo \<Rightarrow> entrada \<Rightarrow> imagem \<Rightarrow> string \<Rightarrow> caixa list \<Rightarrow> real list
     \<Rightarrow> DetectorPessoasVideo \<times> evento list" where
  "registra self e fr md cx ps =
     (let lenta = (t_registro e - t_comeco e > MAX_TEMPO_ENTRE_REGISTROS);
          self = (if lenta
                  then self\<lparr>pessoas_registradas := reiniciar (pessoas_registradas self)\<rparr>
                  else self);
          res = atualizar (pessoas_registradas self) cx ps (md = ''parado'');
          self = self\<lparr>pessoas_registradas := snd res\<rparr>;
          self = self\<lparr>frame := Some fr\<rparr>;
          self = self\<lparr>dpv_modo := md\<rparr>;
          self = self\<lparr>pessoas_historico :=
                   atualiza_periodo (pessoas_historico self) (length (fst (fst res)))\<rparr>
      in (self,
          (if lenta then [RegistroReiniciar] else [])
          @ [RegistroAtualizar cx ps (md = ''parado''),
             HistoricoAtualizaPeriodo (length (fst (fst res))),
             ForceMinimumLoopPeriod]))"

text \<open>
  How an iteration ends: it goes on to the next test of the loop condition, it
  leaves the loop by \<^verbatim>\<open>break\<close>, or an exception leaves it that no handler of
  \<^verbatim>\<open>run\<close> catches.
\<close>

datatype saida = Continua | Interrompe | Levanta string

text \<open>
  One iteration of the loop (lines 217 to 264). The read and the detection are
  inside a \<^verbatim>\<open>try\<close> whose handler prints and breaks; the calls to the tracker
  (lines 240 to 246) are inside none, so an exception of theirs leaves the
  iteration as it is raised.
\<close>

definition iteracao ::
  "DetectorPessoasVideo \<Rightarrow> ModoDeteccao \<Rightarrow> entrada
     \<Rightarrow> saida \<times> DetectorPessoasVideo \<times> ModoDeteccao \<times> evento list" where
  "iteracao self modo_deteccao e =
     (case leitura e of
        Inl err \<Rightarrow> (Interrompe, self, modo_deteccao, [StreamRead, Print])
      | Inr fr \<Rightarrow>
          (let fr = frame_tamanho_maximo self fr;
               modo_deteccao = atualiza_modo modo_deteccao (movimento e) (relogio e);
               md = modo modo_deteccao
           in if md = ''detectando'' then
                (case deteccao e of
                   Inl ex \<Rightarrow> (Interrompe, self, modo_deteccao, [StreamRead, Detectar, Print])
                 | Inr (cx, ps) \<Rightarrow>
                     (let (self, evs) = registra self e fr md cx ps
                      in (Continua, self, modo_deteccao, [StreamRead, Detectar] @ evs)))
              else if md = ''rastreando'' then
                (let semeadura =
                       (if mudou_modo modo_deteccao then
                          (case reinicio e of
                             Some ex \<Rightarrow> Inl (ex, [RastreadorReiniciar])
                           | None \<Rightarrow>
                               (case adicao e of
                                  Some ex \<Rightarrow>
                                    Inl (ex,
                                      [RastreadorReiniciar,
                                       RastreadorAdiciona
                                         (pega_objetos (pessoas_registradas self))])
                                | None \<Rightarrow>
                                    Inr [RastreadorReiniciar,
                                         RastreadorAdiciona
                                           (pega_objetos (pessoas_registradas self))]))
                        else Inr [])
                 in case semeadura of
                      Inl (ex, evs0) \<Rightarrow> (Levanta ex, self, modo_deteccao, [StreamRead] @ evs0)
                    | Inr evs0 \<Rightarrow>
                        (case rastreio e of
                           Inl ex \<Rightarrow>
                             (Levanta ex, self, modo_deteccao,
                              [StreamRead] @ evs0 @ [RastreadorAtualiza])
                         | Inr cx \<Rightarrow>
                             (let (self, evs) = registra self e fr md cx []
                              in (Continua, self, modo_deteccao,
                                  [StreamRead] @ evs0 @ [RastreadorAtualiza] @ evs))))
              else
                (let (self, evs) = registra self e fr md [] []
                 in (Continua, self, modo_deteccao, [StreamRead] @ evs))))"

text \<open>
  The loop \<^verbatim>\<open>while not self.stopped\<close> over the answers of the world, one element
  per iteration. The result is \<open>None\<close> when the loop has not ended within the
  iterations given: nothing left it and \<^verbatim>\<open>self.stopped\<close> was still false at the
  last test. Otherwise its first component is the exception that left the loop,
  or \<open>None\<close> when the loop ended by its test or by \<^verbatim>\<open>break\<close>.
\<close>

fun laco ::
  "DetectorPessoasVideo \<Rightarrow> ModoDeteccao \<Rightarrow> entrada list
     \<Rightarrow> (string option \<times> DetectorPessoasVideo \<times> ModoDeteccao \<times> evento list) option" where
  "laco self md [] = (if stopped self then Some (None, self, md, []) else None)"
| "laco self md (e # es) =
     (if stopped self then Some (None, self, md, [])
      else
        (case iteracao self md e of
           (Interrompe, self', md', evs) \<Rightarrow> Some (None, self', md', evs)
         | (Levanta ex, self', md', evs) \<Rightarrow> Some (Some ex, self', md', evs)
         | (Continua, self', md', evs) \<Rightarrow>
             (case laco (if pedido_parada e then stop self' else self') md' es of
                None \<Rightarrow> None
              | Some (x, self'', md'', evs') \<Rightarrow> Some (x, self'', md'', evs @ evs'))))"

text \<open>
  \<^verbatim>\<open>run\<close> (lines 191 to 269). \<open>t1\<close>, \<open>t2\<close> and \<open>t3\<close> are the clock readings of
  the constructor of \<open>ModoDeteccao\<close>, which \<^verbatim>\<open>run\<close> calls with the default
  \<^verbatim>\<open>max_tempo_sem_atualizar_modo=1\<close>. The result is \<open>None\<close> when the loop has not
  ended; otherwise it is how the thread ends (\<open>None\<close> when \<^verbatim>\<open>run\<close> returns, the
  exception when one leaves it), the object at that moment and the calls made.
  Lines 266 to 269 follow the loop and are in no \<^verbatim>\<open>finally\<close>: an exception that
  leaves the loop leaves \<^verbatim>\<open>run\<close> before them.
\<close>

definition run ::
  "DetectorPessoasVideo \<Rightarrow> real \<Rightarrow> real \<Rightarrow> real \<Rightarrow> entrada list
     \<Rightarrow> (string option \<times> DetectorPessoasVideo \<times> evento list) option" where
  "run self t1 t2 t3 es =
     (if stream self = None \<or> detectorPessoas self = None then Some (None, self, [Print])
      else
        (let modo_deteccao =
               ModoDeteccao_init (dpv_max_tempo_sem_deteccao self) (dpv_max_tempo_parado self)
                 (dpv_usar_rastreamento self) 1 t1 t2 t3
         in case laco self modo_deteccao es of
              None \<Rightarrow> None
            | Some (Some ex, self, md, evs) \<Rightarrow>
                Some (Some ex, self, [StreamStart, Sleep, DetectorMovimentoStart] @ evs)
            | Some (None, self, md, evs) \<Rightarrow>
                Some (None, stop self,
                      [StreamStart, Sleep, DetectorMovimentoStart] @ evs
                      @ [DetectorMovimentoStop]
                      @ (if \<not> stream_externo self then [StreamStop] else []))))"

text \<open>The calls that touch the registry or the occupancy history.\<close>

fun toca_registro :: "evento \<Rightarrow> bool" where
  "toca_registro RegistroReiniciar = True"
| "toca_registro (RegistroAtualizar cx ps f) = True"
| "toca_registro (HistoricoAtualizaPeriodo n) = True"
| "toca_registro _ = False"


text \<open>
  A configured object, the world's answers for an iteration in which the
  detector finds two people and which takes 1.5 seconds, the same answers with
  a closed stream, and the same answers with a detector that raises. Then the
  answers for two iterations 0.7 seconds apart: in the first the detector finds
  two people, in the second \<^verbatim>\<open>rastreador.atualiza\<close> raises. These are the inputs
  at which the theorems below are instantiated.
\<close>

definition video_exemplo :: DetectorPessoasVideo where
  "video_exemplo =
     \<lparr> dpv_usar_rastreamento = True,
       dpv_max_tempo_sem_deteccao = 5,
       dpv_max_tempo_parado = 60,
       max_largura_frame = 700,
       pessoas_historico = [1],
       pessoas_registradas = \<lparr> caixas = [(0, 0, 10, 10)], pesos = [9 / 10] \<rparr>,
       frame = None,
       stream = Some 0,
       detectorPessoas = Some 1,
       stopped = False,
       stream_externo = False,
       dpv_modo = [] \<rparr>"

definition entrada_exemplo :: entrada where
  "entrada_exemplo =
     \<lparr> t_comeco = 2,
       leitura = Inr \<lparr> largura = 1000, conteudo = 0 \<rparr>,
       movimento = True,
       relogio = instante 2,
       deteccao = Inr ([(1, 1, 5, 5), (2, 2, 5, 5)], [1 / 2, 3 / 5]),
       reinicio = None,
       adicao = None,
       rastreio = Inr [],
       t_registro = 7 / 2,
       pedido_parada = False \<rparr>"

definition entrada_falha :: entrada where
  "entrada_falha = entrada_exemplo\<lparr>leitura := Inl StreamClosedError\<rparr>"

definition entrada_deteccao_falha :: entrada where
  "entrada_deteccao_falha = entrada_exemplo\<lparr>deteccao := Inl ''RuntimeError''\<rparr>"

definition entrada_rapida :: entrada where
  "entrada_rapida = entrada_exemplo\<lparr>t_registro := 11 / 5\<rparr>"

definition entrada_rastreador_falha :: entrada where
  "entrada_rastreador_falha =
     entrada_exemplo\<lparr>t_comeco := 27 / 10, relogio := instante (27 / 10),
       rastreio := Inl ''error'', t_registro := 14 / 5\<rparr>"


section \<open>Properties of \<open>ModoDeteccao\<close>\<close>

subsection \<open>What one evaluation computes\<close>

text \<open>
  The mode an evaluation returns and the two entry times it may set, field by
  field, with the previous mode taken from the state before the call.
\<close>

lemma atualiza_modo_modo:
  "modo (atualiza_modo self mv tm) =
     (if modo self = ''detectando'' then
        (if \<not> mv then ''parado''
         else if \<not> usar_rastreamento self
                 \<or> tempo_ultima_checagem self - t_checagem tm > max_tempo_sem_atualizar_modo self
           then ''detectando'' else ''rastreando'')
      else if modo self = ''parado'' then
        (if mv \<or> t_parado tm - tempo_em_que_parou self \<ge> max_tempo_parado self
           then ''detectando'' else ''parado'')
      else if modo self = ''rastreando'' then
        (if \<not> mv \<or> t_sem_detectar tm - tempo_ultima_deteccao self \<ge> max_tempo_sem_deteccao self
              \<or> tempo_ultima_checagem self - t_checagem tm > max_tempo_sem_atualizar_modo self
           then ''detectando'' else ''rastreando'')
      else ''detectando'')"
proof -
  consider (d) "modo self = ''detectando''" | (p) "modo self = ''parado''"
    | (r) "modo self = ''rastreando''"
    | (u) "modo self \<noteq> ''detectando''" "modo self \<noteq> ''parado''" "modo self \<noteq> ''rastreando''"
    by blast
  then show ?thesis
  proof cases
    case d then show ?thesis by (simp add: Let_def)
  next
    case p then show ?thesis by (simp add: Let_def)
  next
    case r then show ?thesis by (simp add: Let_def)
  next
    case u then show ?thesis by (simp add: Let_def)
  qed
qed

lemma atualiza_modo_tempo_ultima_deteccao:
  "tempo_ultima_deteccao (atualiza_modo self mv tm) =
     (if modo (atualiza_modo self mv tm) = ''detectando'' then t_marca tm
      else tempo_ultima_deteccao self)"
proof -
  consider (d) "modo self = ''detectando''" | (p) "modo self = ''parado''"
    | (r) "modo self = ''rastreando''"
    | (u) "modo self \<noteq> ''detectando''" "modo self \<noteq> ''parado''" "modo self \<noteq> ''rastreando''"
    by blast
  then show ?thesis
  proof cases
    case d then show ?thesis by (simp add: Let_def)
  next
    case p then show ?thesis by (simp add: Let_def)
  next
    case r then show ?thesis by (simp add: Let_def)
  next
    case u then show ?thesis by (simp add: Let_def)
  qed
qed

lemma atualiza_modo_tempo_em_que_parou:
  "tempo_em_que_parou (atualiza_modo self mv tm) =
     (if modo (atualiza_modo self mv tm) = ''parado'' \<and> modo self \<noteq> ''parado''
        then t_marca tm else tempo_em_que_parou self)"
proof -
  consider (d) "modo self = ''detectando''" | (p) "modo self = ''parado''"
    | (r) "modo self = ''rastreando''"
    | (u) "modo self \<noteq> ''detectando''" "modo self \<noteq> ''parado''" "modo self \<noteq> ''rastreando''"
    by blast
  then show ?thesis
  proof cases
    case d then show ?thesis by (simp add: Let_def)
  next
    case p then show ?thesis by (simp add: Let_def)
  next
    case r then show ?thesis by (simp add: Let_def)
  next
    case u then show ?thesis by (simp add: Let_def)
  qed
qed

lemma atualiza_modo_campos:
  "max_tempo_sem_deteccao (atualiza_modo self mv tm) = max_tempo_sem_deteccao self"
  "max_tempo_parado (atualiza_modo self mv tm) = max_tempo_parado self"
  "max_tempo_sem_atualizar_modo (atualiza_modo self mv tm) = max_tempo_sem_atualizar_modo self"
  "usar_rastreamento (atualiza_modo self mv tm) = usar_rastreamento self"
  "tempo_ultima_checagem (atualiza_modo self mv tm) = t_fim tm"
  "modo_anterior (atualiza_modo self mv tm) = modo self"
  "checagem_atual (atualiza_modo self mv tm) = Some (t_checagem tm)"
  by (simp_all add: Let_def)

declare atualiza_modo.simps [simp del]

lemma atualiza_modo_tres_modos:
  "modo (atualiza_modo self mv tm) \<in> {''detectando'', ''rastreando'', ''parado''}"
  by (simp add: atualiza_modo_modo)

lemma executa_tres_modos:
  "modo self \<in> {''detectando'', ''rastreando'', ''parado''} \<Longrightarrow>
   modo (executa self es) \<in> {''detectando'', ''rastreando'', ''parado''}"
proof (induction es arbitrary: self)
  case Nil
  then show ?case by simp
next
  case (Cons e es)
  obtain mv tm where e: "e = (mv, tm)" by (cases e)
  have "modo (executa (atualiza_modo self mv tm) es)
          \<in> {''detectando'', ''rastreando'', ''parado''}"
    by (rule Cons.IH) (rule atualiza_modo_tres_modos)
  then show ?case by (simp add: e)
qed

text \<open>
  Claim C9. From the unset state the constructor leaves, the first evaluation
  yields \<^verbatim>\<open>'detectando'\<close>, whatever the motion signal, the clock and the
  thresholds; and after an evaluation from any state, and so after every
  evaluation of a run, the mode is one of \<^verbatim>\<open>'detectando'\<close>, \<^verbatim>\<open>'rastreando'\<close> and
  \<^verbatim>\<open>'parado'\<close>.
\<close>

theorem primeira_avaliacao_detectando:
  "modo (ModoDeteccao_init mtsd mtp ur mtsam t1 t2 t3) = []
   \<and> modo (atualiza_modo (ModoDeteccao_init mtsd mtp ur mtsam t1 t2 t3) mv tm) = ''detectando''
   \<and> modo (atualiza_modo self mv tm) \<in> {''detectando'', ''rastreando'', ''parado''}
   \<and> modo (executa (ModoDeteccao_init mtsd mtp ur mtsam t1 t2 t3) ((mv, tm) # es))
        \<in> {''detectando'', ''rastreando'', ''parado''}"
proof -
  have a: "modo (ModoDeteccao_init mtsd mtp ur mtsam t1 t2 t3) = []"
    by (simp add: ModoDeteccao_init_def)
  then have b: "modo (atualiza_modo (ModoDeteccao_init mtsd mtp ur mtsam t1 t2 t3) mv tm)
                  = ''detectando''"
    by (simp add: atualiza_modo_modo)
  have c: "modo (executa (ModoDeteccao_init mtsd mtp ur mtsam t1 t2 t3) ((mv, tm) # es))
        \<in> {''detectando'', ''rastreando'', ''parado''}"
    using executa_tres_modos [OF atualiza_modo_tres_modos] by simp
  from a b c atualiza_modo_tres_modos show ?thesis by blast
qed

subsection \<open>Runs of evaluations\<close>

lemma executa_campos:
  "max_tempo_sem_deteccao (executa self es) = max_tempo_sem_deteccao self
   \<and> max_tempo_parado (executa self es) = max_tempo_parado self
   \<and> max_tempo_sem_atualizar_modo (executa self es) = max_tempo_sem_atualizar_modo self
   \<and> usar_rastreamento (executa self es) = usar_rastreamento self"
  by (induction self es rule: executa.induct) (simp_all add: atualiza_modo_campos)

lemma executa_parado:
  "modo self = ''parado'' \<Longrightarrow> \<forall>m \<in> set (modos self es). m = ''parado'' \<Longrightarrow>
   modo (executa self es) = ''parado''
   \<and> tempo_em_que_parou (executa self es) = tempo_em_que_parou self"
proof (induction self es rule: executa.induct)
  case (1 self)
  then show ?case by simp
next
  case (2 self mv tm es)
  from "2.prems" have m: "modo (atualiza_modo self mv tm) = ''parado''" by simp
  from "2.prems" have "\<forall>m \<in> set (modos (atualiza_modo self mv tm) es). m = ''parado''" by simp
  with m have "modo (executa (atualiza_modo self mv tm) es) = ''parado''
     \<and> tempo_em_que_parou (executa (atualiza_modo self mv tm) es)
         = tempo_em_que_parou (atualiza_modo self mv tm)"
    by (rule "2.IH")
  moreover have "tempo_em_que_parou (atualiza_modo self mv tm) = tempo_em_que_parou self"
    using m "2.prems"(1) by (simp add: atualiza_modo_tempo_em_que_parou)
  ultimately show ?case by simp
qed

lemma executa_rastreando:
  "\<forall>m \<in> set (modos self es). m = ''rastreando'' \<Longrightarrow>
   tempo_ultima_deteccao (executa self es) = tempo_ultima_deteccao self
   \<and> (es \<noteq> [] \<longrightarrow> modo (executa self es) = ''rastreando''
        \<and> tempo_ultima_checagem (executa self es) = t_fim (snd (last es)))"
proof (induction self es rule: executa.induct)
  case (1 self)
  then show ?case by simp
next
  case (2 self mv tm es)
  from "2.prems" have m: "modo (atualiza_modo self mv tm) = ''rastreando''" by simp
  from "2.prems" have "\<forall>m \<in> set (modos (atualiza_modo self mv tm) es). m = ''rastreando''"
    by simp
  then have ih: "tempo_ultima_deteccao (executa (atualiza_modo self mv tm) es)
       = tempo_ultima_deteccao (atualiza_modo self mv tm)
     \<and> (es \<noteq> [] \<longrightarrow> modo (executa (atualiza_modo self mv tm) es) = ''rastreando''
        \<and> tempo_ultima_checagem (executa (atualiza_modo self mv tm) es) = t_fim (snd (last es)))"
    by (rule "2.IH")
  have "tempo_ultima_deteccao (atualiza_modo self mv tm) = tempo_ultima_deteccao self"
    using m by (simp add: atualiza_modo_tempo_ultima_deteccao)
  with ih m show ?case by (cases "es = []") (simp_all add: atualiza_modo_campos)
qed

lemma executa_snoc:
  "executa self (es @ [(mv, tm)]) = atualiza_modo (executa self es) mv tm"
  by (induction self es rule: executa.induct) simp_all

lemma modos_snoc:
  "modos self (es @ [(mv, tm)]) = modos self es @ [modo (atualiza_modo (executa self es) mv tm)]"
  by (induction self es rule: modos.induct) simp_all

lemma checagens_Suc:
  "checagens t (Suc n) = checagens t n @ [(True, instante (t + real n / 10))]"
  by (simp add: checagens_def)

lemma cenario_estado:
  assumes mx: "1 / 10 \<le> mx"
  shows "n \<le> 49 \<Longrightarrow>
    modo (executa (ModoDeteccao_init 5 60 True mx t1 t2 t3) (checagens t (Suc n)))
      = (if n = 0 then ''detectando'' else ''rastreando'')
    \<and> tempo_ultima_deteccao
        (executa (ModoDeteccao_init 5 60 True mx t1 t2 t3) (checagens t (Suc n))) = t
    \<and> tempo_ultima_checagem
        (executa (ModoDeteccao_init 5 60 True mx t1 t2 t3) (checagens t (Suc n)))
        = t + real n / 10"
proof (induction n)
  case 0
  show ?case
    by (simp add: checagens_def atualiza_modo_modo atualiza_modo_tempo_ultima_deteccao
        atualiza_modo_campos ModoDeteccao_init_def instante_def)
next
  case (Suc n)
  let ?s = "executa (ModoDeteccao_init 5 60 True mx t1 t2 t3) (checagens t (Suc n))"
  from Suc have ih: "modo ?s = (if n = 0 then ''detectando'' else ''rastreando'')"
    "tempo_ultima_deteccao ?s = t" "tempo_ultima_checagem ?s = t + real n / 10"
    by simp_all
  have cfg: "usar_rastreamento ?s" "max_tempo_sem_deteccao ?s = 5"
    "max_tempo_sem_atualizar_modo ?s = mx"
    by (simp_all add: executa_campos ModoDeteccao_init_def)
  from Suc.prems have n: "real (Suc n) / 10 < 5" by simp
  have step: "executa (ModoDeteccao_init 5 60 True mx t1 t2 t3) (checagens t (Suc (Suc n)))
      = atualiza_modo ?s True (instante (t + real (Suc n) / 10))"
    by (subst checagens_Suc) (rule executa_snoc)
  have "real (Suc n) / 10 = real n / 10 + 1 / 10"
    by (simp add: add_divide_distrib)
  with mx have ex: "\<not> mx < t + real n / 10 - (t + real (Suc n) / 10)"
    by linarith
  show ?case
    unfolding step using ih cfg n ex
    by (simp add: atualiza_modo_modo atualiza_modo_tempo_ultima_deteccao
        atualiza_modo_campos instante_def del: of_nat_Suc)
qed

lemma cenario_modos:
  assumes mx: "1 / 10 \<le> mx"
  shows "n \<le> 49 \<Longrightarrow>
    modos (ModoDeteccao_init 5 60 True mx t1 t2 t3) (checagens t (Suc n))
      = ''detectando'' # replicate n ''rastreando''"
proof (induction n)
  case 0
  show ?case
    by (simp add: checagens_def atualiza_modo_modo ModoDeteccao_init_def)
next
  case (Suc n)
  then have ih: "modos (ModoDeteccao_init 5 60 True mx t1 t2 t3) (checagens t (Suc n))
      = ''detectando'' # replicate n ''rastreando''"
    by simp
  have "modo (executa (ModoDeteccao_init 5 60 True mx t1 t2 t3) (checagens t (Suc (Suc n))))
      = ''rastreando''"
    using cenario_estado [OF mx Suc.prems, of t1 t2 t3 t] by simp
  then have "modo (atualiza_modo
       (executa (ModoDeteccao_init 5 60 True mx t1 t2 t3) (checagens t (Suc n)))
       True (instante (t + real (Suc n) / 10))) = ''rastreando''"
    by (simp add: checagens_Suc [of t "Suc n"] executa_snoc)
  then show ?case
    by (simp add: checagens_Suc [of t "Suc n"] modos_snoc ih replicate_append_same)
qed

lemmas avalia = atualiza_modo_modo atualiza_modo_tempo_ultima_deteccao
  atualiza_modo_tempo_em_que_parou atualiza_modo_campos ModoDeteccao_init_def instante_def

subsection \<open>The rule of the stopped mode\<close>

text \<open>
  Claim C3. When the previous mode is \<^verbatim>\<open>'parado'\<close>, the evaluation yields
  \<^verbatim>\<open>'detectando'\<close> exactly when there was motion or the clock, less the time
  recorded in \<open>tempo_em_que_parou\<close>, has reached \<open>max_tempo_parado\<close> (so also without
  motion), and yields \<^verbatim>\<open>'parado'\<close> otherwise. An evaluation writes
  \<open>tempo_em_que_parou\<close> exactly when it yields \<^verbatim>\<open>'parado'\<close> and the previous mode
  was another one. Hence, after an evaluation with readings \<open>tm\<close> that entered
  \<^verbatim>\<open>'parado'\<close> and any number of evaluations \<open>es\<close> that stayed there, the next
  evaluation measures the elapsed time from the reading \<open>t_marca tm\<close> of the entry.
\<close>

theorem parado_ate_movimento_ou_tempo:
  "(modo self = ''parado'' \<longrightarrow>
      ((modo (atualiza_modo self mv tm) = ''detectando'')
         = (mv \<or> t_parado tm - tempo_em_que_parou self \<ge> max_tempo_parado self))
      \<and> (modo (atualiza_modo self mv tm) \<noteq> ''detectando''
           \<longrightarrow> modo (atualiza_modo self mv tm) = ''parado''))
   \<and> tempo_em_que_parou (atualiza_modo self mv tm)
       = (if modo (atualiza_modo self mv tm) = ''parado'' \<and> modo self \<noteq> ''parado''
          then t_marca tm else tempo_em_que_parou self)
   \<and> (modo self \<noteq> ''parado'' \<and> modo (atualiza_modo self mv tm) = ''parado''
        \<and> (\<forall>m \<in> set (modos (atualiza_modo self mv tm) es). m = ''parado'')
      \<longrightarrow> modo (executa (atualiza_modo self mv tm) es) = ''parado''
          \<and> ((modo (atualiza_modo (executa (atualiza_modo self mv tm) es) mv' tm') = ''detectando'')
               = (mv' \<or> t_parado tm' - t_marca tm \<ge> max_tempo_parado self)))"
proof -
  have a: "modo self = ''parado'' \<longrightarrow>
      ((modo (atualiza_modo self mv tm) = ''detectando'')
         = (mv \<or> t_parado tm - tempo_em_que_parou self \<ge> max_tempo_parado self))
      \<and> (modo (atualiza_modo self mv tm) \<noteq> ''detectando''
           \<longrightarrow> modo (atualiza_modo self mv tm) = ''parado'')"
    by (simp add: atualiza_modo_modo)
  have c: "modo (executa (atualiza_modo self mv tm) es) = ''parado''
          \<and> ((modo (atualiza_modo (executa (atualiza_modo self mv tm) es) mv' tm') = ''detectando'')
               = (mv' \<or> t_parado tm' - t_marca tm \<ge> max_tempo_parado self))"
    if h: "modo self \<noteq> ''parado''" "modo (atualiza_modo self mv tm) = ''parado''"
      "\<forall>m \<in> set (modos (atualiza_modo self mv tm) es). m = ''parado''"
  proof -
    let ?s1 = "atualiza_modo self mv tm"
    let ?s = "executa ?s1 es"
    from h(2,3) have s: "modo ?s = ''parado'' \<and> tempo_em_que_parou ?s = tempo_em_que_parou ?s1"
      by (rule executa_parado)
    have e: "tempo_em_que_parou ?s1 = t_marca tm"
      using h(1,2) by (simp add: atualiza_modo_tempo_em_que_parou)
    have m: "max_tempo_parado ?s = max_tempo_parado self"
      by (simp add: executa_campos atualiza_modo_campos)
    from s e m show ?thesis by (simp add: atualiza_modo_modo)
  qed
  from a c atualiza_modo_tempo_em_que_parou [of self mv tm] show ?thesis by blast
qed

theorem parado_ate_movimento_ou_tempo_witness:
  "modo (atualiza_modo (ModoDeteccao_init 5 60 True 1 0 0 0) True (instante 0)) \<noteq> ''parado''
   \<and> modo (atualiza_modo
        (atualiza_modo (ModoDeteccao_init 5 60 True 1 0 0 0) True (instante 0))
        False (instante 1)) = ''parado''
   \<and> modos (atualiza_modo
        (atualiza_modo (ModoDeteccao_init 5 60 True 1 0 0 0) True (instante 0))
        False (instante 1)) [(False, instante 2)] = [''parado'']
   \<and> tempo_em_que_parou (atualiza_modo
        (atualiza_modo (ModoDeteccao_init 5 60 True 1 0 0 0) True (instante 0))
        False (instante 1)) = 1
   \<and> modo (atualiza_modo
        (executa (atualiza_modo
           (atualiza_modo (ModoDeteccao_init 5 60 True 1 0 0 0) True (instante 0))
           False (instante 1)) [(False, instante 2)])
        False (instante 61)) = ''detectando''
   \<and> modo (atualiza_modo
        (atualiza_modo
           (atualiza_modo (ModoDeteccao_init 5 60 True 1 0 0 0) True (instante 0))
           False (instante 1))
        False (instante 60)) = ''parado''"
  using parado_ate_movimento_ou_tempo
    [of "atualiza_modo (ModoDeteccao_init 5 60 True 1 0 0 0) True (instante 0)"
        False "instante 1" "[(False, instante 2)]" False "instante 61"]
    parado_ate_movimento_ou_tempo
    [of "atualiza_modo
           (atualiza_modo (ModoDeteccao_init 5 60 True 1 0 0 0) True (instante 0))
           False (instante 1)"
        False "instante 60" "[]" False "instante 61"]
  by (simp add: avalia)

subsection \<open>The time of the last detection\<close>

text \<open>
  Claim C5, as the code has it. An evaluation writes \<open>tempo_ultima_deteccao\<close>
  whenever it yields \<^verbatim>\<open>'detectando'\<close>, on entering that mode and on staying in
  it, and on no other evaluation. Hence, after an evaluation with readings \<open>tm\<close>
  that yielded \<^verbatim>\<open>'detectando'\<close> (from whatever previous mode) and one or more
  evaluations \<open>es\<close> that yielded \<^verbatim>\<open>'rastreando'\<close>, the rule of the tracking mode
  measures the time without detection from the reading \<open>t_marca tm\<close> of the most
  recent evaluation that yielded \<^verbatim>\<open>'detectando'\<close>.
\<close>

theorem ultima_deteccao_em_toda_avaliacao_detectando:
  "tempo_ultima_deteccao (atualiza_modo self mv tm)
     = (if modo (atualiza_modo self mv tm) = ''detectando'' then t_marca tm
        else tempo_ultima_deteccao self)
   \<and> (modo (atualiza_modo self mv tm) = ''detectando'' \<and> es \<noteq> []
        \<and> (\<forall>m \<in> set (modos (atualiza_modo self mv tm) es). m = ''rastreando'')
      \<longrightarrow> modo (executa (atualiza_modo self mv tm) es) = ''rastreando''
          \<and> ((modo (atualiza_modo (executa (atualiza_modo self mv tm) es) mv' tm') = ''detectando'')
               = (\<not> mv'
                  \<or> t_sem_detectar tm' - t_marca tm \<ge> max_tempo_sem_deteccao self
                  \<or> t_fim (snd (last es)) - t_checagem tm' > max_tempo_sem_atualizar_modo self)))"
proof -
  have c: "modo (executa (atualiza_modo self mv tm) es) = ''rastreando''
          \<and> ((modo (atualiza_modo (executa (atualiza_modo self mv tm) es) mv' tm') = ''detectando'')
               = (\<not> mv'
                  \<or> t_sem_detectar tm' - t_marca tm \<ge> max_tempo_sem_deteccao self
                  \<or> t_fim (snd (last es)) - t_checagem tm' > max_tempo_sem_atualizar_modo self))"
    if h: "modo (atualiza_modo self mv tm) = ''detectando''" "es \<noteq> []"
      "\<forall>m \<in> set (modos (atualiza_modo self mv tm) es). m = ''rastreando''"
  proof -
    let ?s1 = "atualiza_modo self mv tm"
    let ?s = "executa ?s1 es"
    from h(3) have "tempo_ultima_deteccao ?s = tempo_ultima_deteccao ?s1
       \<and> (es \<noteq> [] \<longrightarrow> modo ?s = ''rastreando''
            \<and> tempo_ultima_checagem ?s = t_fim (snd (last es)))"
      by (rule executa_rastreando)
    with h(2) have s: "tempo_ultima_deteccao ?s = tempo_ultima_deteccao ?s1"
      "modo ?s = ''rastreando''" "tempo_ultima_checagem ?s = t_fim (snd (last es))"
      by simp_all
    have e: "tempo_ultima_deteccao ?s1 = t_marca tm"
      using h(1) by (simp add: atualiza_modo_tempo_ultima_deteccao)
    have m: "max_tempo_sem_deteccao ?s = max_tempo_sem_deteccao self"
      "max_tempo_sem_atualizar_modo ?s = max_tempo_sem_atualizar_modo self"
      by (simp_all add: executa_campos atualiza_modo_campos)
    from s e m show ?thesis by (simp add: atualiza_modo_modo)
  qed
  from c atualiza_modo_tempo_ultima_deteccao [of self mv tm] show ?thesis by blast
qed

theorem ultima_deteccao_em_toda_avaliacao_detectando_witness:
  "modo (atualiza_modo (ModoDeteccao_init 5 60 True 1 10 10 10) True (instante 10))
     = ''detectando''
   \<and> tempo_ultima_deteccao
        (atualiza_modo (ModoDeteccao_init 5 60 True 1 10 10 10) True (instante 10)) = 10
   \<and> modos (atualiza_modo (ModoDeteccao_init 5 60 True 1 10 10 10) True (instante 10))
        [(True, instante (21 / 2))] = [''rastreando'']
   \<and> modo (atualiza_modo
        (executa (atualiza_modo (ModoDeteccao_init 5 60 True 1 10 10 10) True (instante 10))
           [(True, instante (21 / 2))])
        True (instante 16)) = ''detectando''"
  using ultima_deteccao_em_toda_avaliacao_detectando
    [of "ModoDeteccao_init 5 60 True 1 10 10 10" True "instante 10"
        "[(True, instante (21 / 2))]" True "instante 16"]
  by (simp add: avalia)

text \<open>
  Claim C5 as stated fails. With tracking disabled, the first evaluation (at
  time 1) enters \<^verbatim>\<open>'detectando'\<close>; the second (at time 2) finds the mode already
  \<^verbatim>\<open>'detectando'\<close>, stays in it, and still moves \<open>tempo_ultima_deteccao\<close> from 1
  to 2.
\<close>

theorem ultima_deteccao_contraexemplo:
  "modo (atualiza_modo (ModoDeteccao_init 5 60 False 1 0 0 0) True (instante 1)) = ''detectando''
   \<and> tempo_ultima_deteccao
        (atualiza_modo (ModoDeteccao_init 5 60 False 1 0 0 0) True (instante 1)) = 1
   \<and> modo (atualiza_modo
        (atualiza_modo (ModoDeteccao_init 5 60 False 1 0 0 0) True (instante 1))
        True (instante 2)) = ''detectando''
   \<and> modo_anterior (atualiza_modo
        (atualiza_modo (ModoDeteccao_init 5 60 False 1 0 0 0) True (instante 1))
        True (instante 2)) = ''detectando''
   \<and> tempo_ultima_deteccao (atualiza_modo
        (atualiza_modo (ModoDeteccao_init 5 60 False 1 0 0 0) True (instante 1))
        True (instante 2)) = 2"
  by (simp add: avalia)

subsection \<open>The scenario of checks a tenth of a second apart\<close>

text \<open>
  Claim C4. With \<open>max_tempo_sem_deteccao = 5\<close>, \<open>max_tempo_parado = 60\<close>, tracking
  enabled and a \<open>max_tempo_sem_atualizar_modo\<close> of at least the tenth of a second
  between two checks, checks with motion every tenth of a second from the
  constructor's state yield \<^verbatim>\<open>'detectando'\<close>, \<^verbatim>\<open>'rastreando'\<close>, \<^verbatim>\<open>'rastreando'\<close>;
  the mode stays \<^verbatim>\<open>'rastreando'\<close> up to the fiftieth check, and the fifty-first,
  five seconds after the first, yields \<^verbatim>\<open>'detectando'\<close> again.
\<close>

theorem cenario_cinco_segundos:
  assumes "1 / 10 \<le> mx"
  shows "modos (ModoDeteccao_init 5 60 True mx t1 t2 t3) (checagens t 3)
           = [''detectando'', ''rastreando'', ''rastreando'']
       \<and> modos (ModoDeteccao_init 5 60 True mx t1 t2 t3) (checagens t 51)
           = ''detectando'' # replicate 49 ''rastreando'' @ [''detectando'']"
proof -
  let ?i = "ModoDeteccao_init 5 60 True mx t1 t2 t3"
  have a: "modos ?i (checagens t (Suc 2)) = ''detectando'' # replicate 2 ''rastreando''"
    by (rule cenario_modos [OF assms]) simp
  have b: "modos ?i (checagens t (Suc 49)) = ''detectando'' # replicate 49 ''rastreando''"
    by (rule cenario_modos [OF assms]) simp
  have s: "modo (executa ?i (checagens t (Suc 49))) = ''rastreando''
     \<and> tempo_ultima_deteccao (executa ?i (checagens t (Suc 49))) = t
     \<and> tempo_ultima_checagem (executa ?i (checagens t (Suc 49))) = t + real 49 / 10"
    using cenario_estado [OF assms, of 49 t1 t2 t3 t] by simp
  have cfg: "max_tempo_sem_deteccao (executa ?i (checagens t (Suc 49))) = 5"
    by (simp add: executa_campos ModoDeteccao_init_def)
  have c: "modo (atualiza_modo (executa ?i (checagens t (Suc 49))) True
              (instante (t + real (Suc 49) / 10))) = ''detectando''"
    using s cfg by (simp add: atualiza_modo_modo instante_def)
  have "modos ?i (checagens t (Suc (Suc 49)))
          = ''detectando'' # replicate 49 ''rastreando'' @ [''detectando'']"
    by (simp only: checagens_Suc [of t "Suc 49"] modos_snoc b c append_Cons)
  moreover have "Suc (Suc 49) = 51" "Suc 2 = 3" by simp_all
  moreover have "replicate 2 ''rastreando'' = [''rastreando'', ''rastreando'']"
    by (simp add: numeral_2_eq_2)
  ultimately show ?thesis using a by simp
qed

theorem cenario_cinco_segundos_witness:
  "(1 / 10 :: real) \<le> 1
   \<and> modos (ModoDeteccao_init 5 60 True 1 0 0 0) (checagens 0 3)
        = [''detectando'', ''rastreando'', ''rastreando'']
   \<and> length (modos (ModoDeteccao_init 5 60 True 1 0 0 0) (checagens 0 51)) = 51
   \<and> last (modos (ModoDeteccao_init 5 60 True 1 0 0 0) (checagens 0 51)) = ''detectando''"
proof -
  have h: "(1 / 10 :: real) \<le> 1" by simp
  from cenario_cinco_segundos [OF h, of 0 0 0 0] h show ?thesis by simp
qed

subsection \<open>The time since the previous evaluation\<close>

text \<open>
  Claim C1 at a failing input. The evaluations are at times 10, 10.5 and 12.6,
  all with motion, with the thresholds 5, 60 and 1 and tracking enabled. At the
  third one the previous mode is \<^verbatim>\<open>'rastreando'\<close>, 2.6 seconds have passed since
  the detection and 2.1 seconds, more than \<open>max_tempo_sem_atualizar_modo = 1\<close>,
  since the previous evaluation. Line 409 subtracts the current reading from the
  previous one, so the difference is negative and the mode stays \<^verbatim>\<open>'rastreando'\<close>.
\<close>

theorem rastreando_checagem_atrasada:
  "modos (ModoDeteccao_init 5 60 True 1 10 10 10)
     [(True, instante 10), (True, instante (21/2)), (True, instante (63/5))]
   = [''detectando'', ''rastreando'', ''rastreando'']"
  by (simp add: avalia)

text \<open>
  Claim C2 at a failing input. The evaluations are at times 10 and 12.5, both
  with motion, with the same thresholds and tracking enabled. At the second one
  the previous mode is \<^verbatim>\<open>'detectando'\<close> and 2.5 seconds, more than
  \<open>max_tempo_sem_atualizar_modo = 1\<close>, have passed since the previous evaluation;
  by the subtraction of line 409 the mode becomes \<^verbatim>\<open>'rastreando'\<close>.
\<close>

theorem detectando_checagem_atrasada:
  "modos (ModoDeteccao_init 5 60 True 1 10 10 10)
     [(True, instante 10), (True, instante (25/2))]
   = [''detectando'', ''rastreando'']"
  by (simp add: avalia)


section \<open>Properties of \<open>DetectorPessoasVideo\<close>\<close>

subsection \<open>The constructor\<close>

text \<open>
  Claim C6, as the code has it. The constructor raises \<open>ValueError\<close> exactly when
  \<open>max_tempo_sem_deteccao\<close> is negative, or \<open>max_tempo_parado\<close> is zero or
  negative, or \<open>max_largura_frame\<close> is zero or negative. Otherwise, that is with
  \<open>max_tempo_sem_deteccao\<close> zero or positive and the other two positive, it
  returns an object that holds the thresholds, has no stream and no detector,
  and is not stopped; \<^verbatim>\<open>run\<close> needs such an object, so no loop starts after a
  \<open>ValueError\<close>.
\<close>

theorem construtor_valida_limites:
  "isl (DetectorPessoasVideo_init mtsd mtp mlf ur) = (mtsd < 0 \<or> mtp \<le> 0 \<or> mlf \<le> 0)
   \<and> (\<exists>p. DetectorPessoasVideo_init mtsd mtp mlf ur = Inl (ValueError p))
        = (mtsd < 0 \<or> mtp \<le> 0 \<or> mlf \<le> 0)
   \<and> (\<exists>v. DetectorPessoasVideo_init mtsd mtp mlf ur = Inr v
            \<and> stream v = None \<and> detectorPessoas v = None \<and> \<not> stopped v
            \<and> dpv_max_tempo_sem_deteccao v = mtsd \<and> dpv_max_tempo_parado v = mtp
            \<and> max_largura_frame v = mlf \<and> dpv_usar_rastreamento v = ur)
        = (0 \<le> mtsd \<and> 0 < mtp \<and> 0 < mlf)"
  by (auto simp: DetectorPessoasVideo_init_def)

text \<open>
  Claim C6 as stated fails for \<open>max_tempo_sem_deteccao = 0\<close>: with the other
  thresholds at their defaults the constructor returns an object.
\<close>

theorem construtor_aceita_zero:
  "DetectorPessoasVideo_init 0 60 700 False =
     Inr \<lparr> dpv_usar_rastreamento = False,
           dpv_max_tempo_sem_deteccao = 0,
           dpv_max_tempo_parado = 60,
           max_largura_frame = 700,
           pessoas_historico = [],
           pessoas_registradas = \<lparr> caixas = [], pesos = [] \<rparr>,
           frame = None,
           stream = None,
           detectorPessoas = None,
           stopped = False,
           stream_externo = False,
           dpv_modo = [] \<rparr>"
  by (simp add: DetectorPessoasVideo_init_def CaixasObjetos_init_def)

subsection \<open>\<^verbatim>\<open>run\<close> without a stream or a detector\<close>

text \<open>
  Claim C10. When the stream or the detector is not configured, \<^verbatim>\<open>run\<close> returns
  at once: the only call is the \<^verbatim>\<open>print\<close> of line 198, so no frame is read and
  neither the stream nor a motion detector is started, and the object, with its
  registry and its history, is the one \<^verbatim>\<open>run\<close> was given.
\<close>

theorem run_sem_configuracao:
  "stream self = None \<or> detectorPessoas self = None \<Longrightarrow>
   run self t1 t2 t3 es = Some (None, self, [Print])"
  by (simp add: run_def)

theorem run_sem_configuracao_witness:
  "stream (configura_detector (projr (DetectorPessoasVideo_init 5 60 700 False)) 1) = None
   \<and> run (configura_detector (projr (DetectorPessoasVideo_init 5 60 700 False)) 1) 0 0 0 []
       = Some (None, configura_detector (projr (DetectorPessoasVideo_init 5 60 700 False)) 1,
               [Print])"
proof -
  have h: "stream (configura_detector (projr (DetectorPessoasVideo_init 5 60 700 False)) 1) = None"
    by (simp add: DetectorPessoasVideo_init_def configura_detector_def)
  then have "stream (configura_detector (projr (DetectorPessoasVideo_init 5 60 700 False)) 1) = None
     \<or> detectorPessoas (configura_detector (projr (DetectorPessoasVideo_init 5 60 700 False)) 1) = None"
    by (rule disjI1)
  from run_sem_configuracao [OF this, of 0 0 0 "[]"] h show ?thesis by simp
qed

subsection \<open>One iteration of the loop\<close>

lemma registra_campos:
  "stream_externo (fst (registra self e fr md cx ps)) = stream_externo self"
  "stopped (fst (registra self e fr md cx ps)) = stopped self"
  "stream (fst (registra self e fr md cx ps)) = stream self"
  "detectorPessoas (fst (registra self e fr md cx ps)) = detectorPessoas self"
  "dpv_modo (fst (registra self e fr md cx ps)) = md"
  by (simp_all add: registra_def Let_def)

lemma registra_eventos:
  "snd (registra self e fr md cx ps) =
     (if t_registro e - t_comeco e > MAX_TEMPO_ENTRE_REGISTROS then [RegistroReiniciar] else [])
     @ [RegistroAtualizar cx ps (md = ''parado''),
        HistoricoAtualizaPeriodo (len (pessoas_registradas (fst (registra self e fr md cx ps)))),
        ForceMinimumLoopPeriod]"
  by (simp add: registra_def Let_def atualizar_def len_def)

lemma registra_registro:
  "pessoas_registradas (fst (registra self e fr md cx ps)) =
     snd (atualizar
       (if t_registro e - t_comeco e > MAX_TEMPO_ENTRE_REGISTROS
        then reiniciar (pessoas_registradas self) else pessoas_registradas self)
       cx ps (md = ''parado''))"
  "pessoas_historico (fst (registra self e fr md cx ps)) =
     atualiza_periodo (pessoas_historico self)
       (len (pessoas_registradas (fst (registra self e fr md cx ps))))"
  by (simp_all add: registra_def Let_def atualizar_def len_def)

lemma iteracao_leitura_falha:
  "leitura e = Inl err \<Longrightarrow> iteracao self md e = (Interrompe, self, md, [StreamRead, Print])"
  by (simp add: iteracao_def)

lemma iteracao_deteccao_falha:
  "leitura e = Inr fr \<Longrightarrow> modo (atualiza_modo md (movimento e) (relogio e)) = ''detectando'' \<Longrightarrow>
   deteccao e = Inl ex \<Longrightarrow>
   iteracao self md e =
     (Interrompe, self, atualiza_modo md (movimento e) (relogio e),
      [StreamRead, Detectar, Print])"
  by (simp add: iteracao_def Let_def)

text \<open>
  The three ways an iteration ends. A \<^verbatim>\<open>break\<close> and an exception leave the object
  as it was, after calls to the stream, the detector, the tracker or the console
  only; an iteration that goes on has made such calls and then those of lines
  251 to 264, with the mode it decided.
\<close>

lemma iteracao_formas:
  obtains (interrompe) md' evs where
      "iteracao self md e = (Interrompe, self, md', evs)"
      "set evs \<subseteq> {StreamRead, Detectar, Print}"
  | (levanta) ex evs where
      "iteracao self md e = (Levanta ex, self, atualiza_modo md (movimento e) (relogio e), evs)"
      "set evs \<subseteq> {StreamRead, RastreadorReiniciar,
                  RastreadorAdiciona (pega_objetos (pessoas_registradas self)),
                  RastreadorAtualiza}"
  | (continua) fr cx ps evs0 where
      "iteracao self md e =
         (Continua,
          fst (registra self e fr (modo (atualiza_modo md (movimento e) (relogio e))) cx ps),
          atualiza_modo md (movimento e) (relogio e),
          evs0 @ snd (registra self e fr
                  (modo (atualiza_modo md (movimento e) (relogio e))) cx ps))"
      "set evs0 \<subseteq> {StreamRead, Detectar, RastreadorReiniciar,
                   RastreadorAdiciona (pega_objetos (pessoas_registradas self)),
                   RastreadorAtualiza}"
proof (cases "leitura e")
  case (Inl err)
  then have "iteracao self md e = (Interrompe, self, md, [StreamRead, Print])"
    by (rule iteracao_leitura_falha)
  then show ?thesis by (rule interrompe) simp
next
  case (Inr fr0)
  let ?m = "atualiza_modo md (movimento e) (relogio e)"
  let ?fr = "frame_tamanho_maximo self fr0"
  let ?A = "RastreadorAdiciona (pega_objetos (pessoas_registradas self))"
  show ?thesis
  proof (cases "modo ?m = ''detectando''")
    case True
    show ?thesis
    proof (cases "deteccao e")
      case (Inl ex)
      with Inr True have "iteracao self md e = (Interrompe, self, ?m, [StreamRead, Detectar, Print])"
        by (rule iteracao_deteccao_falha)
      then show ?thesis by (rule interrompe) simp
    next
      case r: (Inr cp)
      obtain cx ps where cp: "cp = (cx, ps)" by (cases cp)
      have "iteracao self md e =
         (Continua, fst (registra self e ?fr (modo ?m) cx ps), ?m,
          [StreamRead, Detectar] @ snd (registra self e ?fr (modo ?m) cx ps))"
        using Inr True r cp by (simp add: iteracao_def Let_def split: prod.splits)
      then show ?thesis by (rule continua) simp
    qed
  next
    case nd: False
    show ?thesis
    proof (cases "modo ?m = ''rastreando''")
      case False
      have "iteracao self md e =
         (Continua, fst (registra self e ?fr (modo ?m) [] []), ?m,
          [StreamRead] @ snd (registra self e ?fr (modo ?m) [] []))"
        using Inr nd False by (simp add: iteracao_def Let_def split: prod.splits)
      then show ?thesis by (rule continua) simp
    next
      case True
      consider (r) ex where "mudou_modo ?m" "reinicio e = Some ex"
        | (a) ex where "mudou_modo ?m" "reinicio e = None" "adicao e = Some ex"
        | (t1) ex where "mudou_modo ?m" "reinicio e = None" "adicao e = None"
            "rastreio e = Inl ex"
        | (t2) ex where "\<not> mudou_modo ?m" "rastreio e = Inl ex"
        | (c1) cx where "mudou_modo ?m" "reinicio e = None" "adicao e = None"
            "rastreio e = Inr cx"
        | (c2) cx where "\<not> mudou_modo ?m" "rastreio e = Inr cx"
        by (cases "reinicio e"; cases "adicao e"; cases "rastreio e"; cases "mudou_modo ?m")
          auto
      then show ?thesis
      proof cases
        case r
        have "iteracao self md e = (Levanta ex, self, ?m, [StreamRead, RastreadorReiniciar])"
          using Inr nd True r by (simp add: iteracao_def Let_def)
        then show ?thesis by (rule levanta) simp
      next
        case a
        have "iteracao self md e = (Levanta ex, self, ?m, [StreamRead, RastreadorReiniciar, ?A])"
          using Inr nd True a by (simp add: iteracao_def Let_def)
        then show ?thesis by (rule levanta) simp
      next
        case t1
        have "iteracao self md e =
           (Levanta ex, self, ?m, [StreamRead, RastreadorReiniciar, ?A, RastreadorAtualiza])"
          using Inr nd True t1 by (simp add: iteracao_def Let_def)
        then show ?thesis by (rule levanta) simp
      next
        case t2
        have "iteracao self md e = (Levanta ex, self, ?m, [StreamRead, RastreadorAtualiza])"
          using Inr nd True t2 by (simp add: iteracao_def Let_def)
        then show ?thesis by (rule levanta) simp
      next
        case c1
        have "iteracao self md e =
           (Continua, fst (registra self e ?fr (modo ?m) cx []), ?m,
            [StreamRead, RastreadorReiniciar, ?A, RastreadorAtualiza]
            @ snd (registra self e ?fr (modo ?m) cx []))"
          using Inr nd True c1 by (simp add: iteracao_def Let_def split: prod.splits)
        then show ?thesis by (rule continua) simp
      next
        case c2
        have "iteracao self md e =
           (Continua, fst (registra self e ?fr (modo ?m) cx []), ?m,
            [StreamRead, RastreadorAtualiza] @ snd (registra self e ?fr (modo ?m) cx []))"
          using Inr nd True c2 by (simp add: iteracao_def Let_def split: prod.splits)
        then show ?thesis by (rule continua) simp
      qed
    qed
  qed
qed

lemma sem_registro:
  "set evs \<subseteq> {StreamRead, Detectar, Print, RastreadorReiniciar, RastreadorAdiciona cx,
               RastreadorAtualiza} \<Longrightarrow>
   filter toca_registro evs = []
   \<and> DetectorMovimentoStop \<notin> set evs \<and> StreamStop \<notin> set evs"
  by (induction evs) auto

lemmas exemplo = video_exemplo_def entrada_exemplo_def entrada_falha_def
  entrada_deteccao_falha_def entrada_rapida_def entrada_rastreador_falha_def
  recebe_video_def iteracao_def
  registra_def atualizar_def reiniciar_def atualiza_periodo_def len_def Let_def
  frame_tamanho_maximo_def resize_def MAX_TEMPO_ENTRE_REGISTROS_def mudou_modo_def
  pega_objetos_def stop_def run_def avalia

text \<open>
  Claim C7. An iteration that leaves the loop, by \<^verbatim>\<open>break\<close> or by an exception of
  the tracker, makes no call to the registry or the history and leaves both as
  they were. Every other iteration decides the mode with \<open>atualiza_modo\<close>,
  publishes it, and makes these calls to the registry and the history, in this
  order: a reset, if and only if the clock at line 252 is more than
  \<open>MAX_TEMPO_ENTRE_REGISTROS\<close> past the clock at line 217; one merge, with the
  frozen flag equal to whether the mode is \<^verbatim>\<open>'parado'\<close>; one record in the
  history, of the number of boxes the registry holds after that merge.
\<close>

theorem registro_em_cada_iteracao:
  assumes it: "iteracao self md e = (sd, self', md', evs)"
  shows "(sd \<noteq> Continua \<longrightarrow>
            filter toca_registro evs = []
            \<and> pessoas_registradas self' = pessoas_registradas self
            \<and> pessoas_historico self' = pessoas_historico self)
       \<and> (sd = Continua \<longrightarrow>
            md' = atualiza_modo md (movimento e) (relogio e)
            \<and> dpv_modo self' = modo md'
            \<and> (\<exists>cx ps.
                 filter toca_registro evs =
                   (if t_registro e - t_comeco e > MAX_TEMPO_ENTRE_REGISTROS
                    then [RegistroReiniciar] else [])
                   @ [RegistroAtualizar cx ps (modo md' = ''parado''),
                      HistoricoAtualizaPeriodo (len (pessoas_registradas self'))]
                 \<and> pessoas_registradas self' =
                     snd (atualizar
                       (if t_registro e - t_comeco e > MAX_TEMPO_ENTRE_REGISTROS
                        then reiniciar (pessoas_registradas self)
                        else pessoas_registradas self)
                       cx ps (modo md' = ''parado''))
                 \<and> pessoas_historico self' =
                     pessoas_historico self @ [len (pessoas_registradas self')]))"
proof (cases rule: iteracao_formas [where self = self and md = md and e = e])
  case (interrompe m evs1)
  from interrompe(2) have "set evs1 \<subseteq> {StreamRead, Detectar, Print, RastreadorReiniciar,
      RastreadorAdiciona [], RastreadorAtualiza}"
    by auto
  then have "filter toca_registro evs1 = []" using sem_registro by blast
  with it interrompe(1) show ?thesis by auto
next
  case (levanta ex evs1)
  from levanta(2) have "set evs1 \<subseteq> {StreamRead, Detectar, Print, RastreadorReiniciar,
      RastreadorAdiciona (pega_objetos (pessoas_registradas self)), RastreadorAtualiza}"
    by auto
  then have "filter toca_registro evs1 = []" using sem_registro by blast
  with it levanta(1) show ?thesis by auto
next
  case (continua fr cx ps evs0)
  let ?m = "atualiza_modo md (movimento e) (relogio e)"
  let ?r = "registra self e fr (modo ?m) cx ps"
  from it continua(1) have r: "sd = Continua" "self' = fst ?r" "md' = ?m" "evs = evs0 @ snd ?r"
    by auto
  from continua(2) have "set evs0 \<subseteq> {StreamRead, Detectar, Print, RastreadorReiniciar,
      RastreadorAdiciona (pega_objetos (pessoas_registradas self)), RastreadorAtualiza}"
    by auto
  then have f0: "filter toca_registro evs0 = []" using sem_registro by blast
  have "dpv_modo self' = modo md'" using r(2,3) by (simp add: registra_campos)
  moreover have "filter toca_registro evs =
       (if t_registro e - t_comeco e > MAX_TEMPO_ENTRE_REGISTROS then [RegistroReiniciar] else [])
       @ [RegistroAtualizar cx ps (modo md' = ''parado''),
          HistoricoAtualizaPeriodo (len (pessoas_registradas self'))]"
    using r(2,3,4) f0 by (simp add: registra_eventos)
  moreover have "pessoas_registradas self' =
       snd (atualizar
         (if t_registro e - t_comeco e > MAX_TEMPO_ENTRE_REGISTROS
          then reiniciar (pessoas_registradas self) else pessoas_registradas self)
         cx ps (modo md' = ''parado''))"
    unfolding r(2,3) by (rule registra_registro(1))
  moreover have "pessoas_historico self' =
       pessoas_historico self @ [len (pessoas_registradas self')]"
    unfolding r(2) by (subst registra_registro(2)) (simp add: atualiza_periodo_def)
  ultimately show ?thesis using r(1,3) by blast
qed

theorem registro_em_cada_iteracao_witness:
  "fst (iteracao video_exemplo (ModoDeteccao_init 5 60 True 1 0 0 0) entrada_exemplo) = Continua
   \<and> filter toca_registro
        (snd (snd (snd (iteracao video_exemplo (ModoDeteccao_init 5 60 True 1 0 0 0)
           entrada_exemplo))))
       = [RegistroReiniciar,
          RegistroAtualizar [(1, 1, 5, 5), (2, 2, 5, 5)] [1 / 2, 3 / 5] False,
          HistoricoAtualizaPeriodo 2]
   \<and> pessoas_historico
        (fst (snd (iteracao video_exemplo (ModoDeteccao_init 5 60 True 1 0 0 0)
           entrada_exemplo)))
       = [1, 2]
   \<and> fst (iteracao video_exemplo (ModoDeteccao_init 5 60 True 1 0 0 0) entrada_falha)
       = Interrompe
   \<and> filter toca_registro
        (snd (snd (snd (iteracao video_exemplo (ModoDeteccao_init 5 60 True 1 0 0 0)
           entrada_falha))))
       = []
   \<and> pessoas_historico
        (fst (snd (iteracao video_exemplo (ModoDeteccao_init 5 60 True 1 0 0 0)
           entrada_falha)))
       = [1]"
  using registro_em_cada_iteracao
    [of video_exemplo "ModoDeteccao_init 5 60 True 1 0 0 0" entrada_exemplo
        "fst (iteracao video_exemplo (ModoDeteccao_init 5 60 True 1 0 0 0) entrada_exemplo)"
        "fst (snd (iteracao video_exemplo (ModoDeteccao_init 5 60 True 1 0 0 0)
           entrada_exemplo))"
        "fst (snd (snd (iteracao video_exemplo (ModoDeteccao_init 5 60 True 1 0 0 0)
           entrada_exemplo)))"
        "snd (snd (snd (iteracao video_exemplo (ModoDeteccao_init 5 60 True 1 0 0 0)
           entrada_exemplo)))"]
    registro_em_cada_iteracao
    [of video_exemplo "ModoDeteccao_init 5 60 True 1 0 0 0" entrada_falha
        "fst (iteracao video_exemplo (ModoDeteccao_init 5 60 True 1 0 0 0) entrada_falha)"
        "fst (snd (iteracao video_exemplo (ModoDeteccao_init 5 60 True 1 0 0 0)
           entrada_falha))"
        "fst (snd (snd (iteracao video_exemplo (ModoDeteccao_init 5 60 True 1 0 0 0)
           entrada_falha)))"
        "snd (snd (snd (iteracao video_exemplo (ModoDeteccao_init 5 60 True 1 0 0 0)
           entrada_falha)))"]
  by (simp add: exemplo)

subsection \<open>The end of the loop\<close>

lemma iteracao_preserva:
  assumes "iteracao self md e = (sd, self', md', evs)"
  shows "stream_externo self' = stream_externo self \<and> stopped self' = stopped self
       \<and> DetectorMovimentoStop \<notin> set evs \<and> StreamStop \<notin> set evs"
proof (cases rule: iteracao_formas [where self = self and md = md and e = e])
  case (interrompe m evs1)
  from interrompe(2) have "DetectorMovimentoStop \<notin> set evs1 \<and> StreamStop \<notin> set evs1"
    by auto
  with assms interrompe(1) show ?thesis by simp
next
  case (levanta ex evs1)
  from levanta(2) have "DetectorMovimentoStop \<notin> set evs1 \<and> StreamStop \<notin> set evs1"
    by auto
  with assms levanta(1) show ?thesis by simp
next
  case (continua fr cx ps evs0)
  from continua(2) have "DetectorMovimentoStop \<notin> set evs0 \<and> StreamStop \<notin> set evs0"
    by auto
  with assms continua(1) show ?thesis
    by (auto simp: registra_campos registra_eventos)
qed

text \<open>
  The loop never stops the motion detector or the stream itself and keeps
  \<open>stream_externo\<close>; when an exception leaves it, \<^verbatim>\<open>self.stopped\<close> is still false.
\<close>

lemma laco_preserva:
  "laco self md es = Some (x, self', md', evs) \<Longrightarrow>
   stream_externo self' = stream_externo self
   \<and> DetectorMovimentoStop \<notin> set evs \<and> StreamStop \<notin> set evs
   \<and> (x \<noteq> None \<longrightarrow> \<not> stopped self')"
proof (induction es arbitrary: self md x self' md' evs)
  case Nil
  then show ?case by (simp split: if_splits)
next
  case (Cons e es)
  show ?case
  proof (cases "stopped self")
    case True
    with Cons.prems show ?thesis by simp
  next
    case False
    obtain sd s1 m1 ev1 where it: "iteracao self md e = (sd, s1, m1, ev1)"
      by (cases "iteracao self md e") auto
    from it have p1: "stream_externo s1 = stream_externo self \<and> stopped s1 = stopped self
       \<and> DetectorMovimentoStop \<notin> set ev1 \<and> StreamStop \<notin> set ev1"
      by (rule iteracao_preserva)
    show ?thesis
    proof (cases sd)
      case Interrompe
      with Cons.prems False it p1 show ?thesis by simp
    next
      case (Levanta ex)
      with Cons.prems False it p1 show ?thesis by auto
    next
      case Continua
      let ?s = "if pedido_parada e then stop s1 else s1"
      from Cons.prems False it Continua obtain ev2 where
        l: "laco ?s m1 es = Some (x, self', md', ev2)" and r: "evs = ev1 @ ev2"
        by (auto split: option.splits)
      from l have "stream_externo self' = stream_externo ?s
         \<and> DetectorMovimentoStop \<notin> set ev2 \<and> StreamStop \<notin> set ev2
         \<and> (x \<noteq> None \<longrightarrow> \<not> stopped self')"
        by (rule Cons.IH)
      moreover have "stream_externo ?s = stream_externo s1" by (simp add: stop_def)
      ultimately show ?thesis using p1 r by simp
    qed
  qed
qed

lemma laco_termina_na_falha:
  "\<exists>e \<in> set es. isl (leitura e) \<Longrightarrow> laco self md es \<noteq> None"
proof (induction es arbitrary: self md)
  case Nil
  then show ?case by simp
next
  case (Cons e es)
  show ?case
  proof (cases "stopped self")
    case True
    then show ?thesis by simp
  next
    case False
    obtain sd s1 m1 ev1 where it: "iteracao self md e = (sd, s1, m1, ev1)"
      by (cases "iteracao self md e") auto
    show ?thesis
    proof (cases sd)
      case Interrompe
      with False it show ?thesis by simp
    next
      case (Levanta ex)
      with False it show ?thesis by simp
    next
      case Continua
      have "\<not> isl (leitura e)"
      proof
        assume "isl (leitura e)"
        then obtain err where "leitura e = Inl err" by (cases "leitura e") auto
        then have "iteracao self md e = (Interrompe, self, md, [StreamRead, Print])"
          by (rule iteracao_leitura_falha)
        with it Continua show False by simp
      qed
      with Cons.prems have "\<exists>e \<in> set es. isl (leitura e)" by auto
      then have "laco (if pedido_parada e then stop s1 else s1) m1 es \<noteq> None"
        by (rule Cons.IH)
      then obtain r where "laco (if pedido_parada e then stop s1 else s1) m1 es = Some r"
        by auto
      with False it Continua show ?thesis
        by (cases "pedido_parada e") (simp_all split: prod.splits)
    qed
  qed
qed

text \<open>
  What \<^verbatim>\<open>run\<close> does on the ways out it handles. A failure of \<^verbatim>\<open>read()\<close> ends the
  loop at once, and so does a failure of \<^verbatim>\<open>detectar\<close>; \<^verbatim>\<open>run\<close> does end when one
  of the reads is a failure. Whenever \<^verbatim>\<open>run\<close> returns after its set-up, the calls
  it made end with the stop of the motion detector followed by the stop of the
  stream if and only if the stream was not supplied from outside, and the
  object is marked stopped. Whenever an exception leaves \<^verbatim>\<open>run\<close>, neither stop
  was made and the object is not marked stopped.
\<close>

lemma encerramento_sem_excecao:
  "(\<not> stopped self \<and> leitura e = Inl err
      \<longrightarrow> laco self md (e # es) = Some (None, self, md, [StreamRead, Print]))
   \<and> (\<not> stopped self \<and> leitura e = Inr fr
        \<and> modo (atualiza_modo md (movimento e) (relogio e)) = ''detectando''
        \<and> deteccao e = Inl ex
      \<longrightarrow> laco self md (e # es)
            = Some (None, self, atualiza_modo md (movimento e) (relogio e),
                    [StreamRead, Detectar, Print]))
   \<and> (stream v \<noteq> None \<and> detectorPessoas v \<noteq> None
        \<and> run v t1 t2 t3 ins = Some (None, v', evs)
      \<longrightarrow> stopped v'
          \<and> (\<exists>pre. evs = pre @ [DetectorMovimentoStop]
                         @ (if stream_externo v then [] else [StreamStop])
                  \<and> DetectorMovimentoStop \<notin> set pre \<and> StreamStop \<notin> set pre))
   \<and> (stream v \<noteq> None \<and> detectorPessoas v \<noteq> None \<and> (\<exists>e \<in> set ins. isl (leitura e))
      \<longrightarrow> run v t1 t2 t3 ins \<noteq> None)"
proof -
  have a: "laco self md (e # es) = Some (None, self, md, [StreamRead, Print])"
    if "\<not> stopped self" "leitura e = Inl err"
    using that by (simp add: iteracao_leitura_falha)
  have b: "laco self md (e # es)
            = Some (None, self, atualiza_modo md (movimento e) (relogio e),
                    [StreamRead, Detectar, Print])"
    if "\<not> stopped self" "leitura e = Inr fr"
      "modo (atualiza_modo md (movimento e) (relogio e)) = ''detectando''"
      "deteccao e = Inl ex"
    using that by (simp add: iteracao_deteccao_falha)
  have c: "stopped v'
          \<and> (\<exists>pre. evs = pre @ [DetectorMovimentoStop]
                         @ (if stream_externo v then [] else [StreamStop])
                  \<and> DetectorMovimentoStop \<notin> set pre \<and> StreamStop \<notin> set pre)"
    if h: "stream v \<noteq> None" "detectorPessoas v \<noteq> None"
      "run v t1 t2 t3 ins = Some (None, v', evs)"
  proof -
    let ?md = "ModoDeteccao_init (dpv_max_tempo_sem_deteccao v) (dpv_max_tempo_parado v)
                 (dpv_usar_rastreamento v) 1 t1 t2 t3"
    from h obtain s m ev where
      l: "laco v ?md ins = Some (None, s, m, ev)" and
      r: "v' = stop s"
         "evs = [StreamStart, Sleep, DetectorMovimentoStart] @ ev @ [DetectorMovimentoStop]
                @ (if \<not> stream_externo s then [StreamStop] else [])"
      by (auto simp: run_def Let_def split: option.splits)
    from l have p: "stream_externo s = stream_externo v
       \<and> DetectorMovimentoStop \<notin> set ev \<and> StreamStop \<notin> set ev"
      using laco_preserva by blast
    have "stopped v'" using r(1) by (simp add: stop_def)
    moreover have "evs = ([StreamStart, Sleep, DetectorMovimentoStart] @ ev)
        @ [DetectorMovimentoStop] @ (if stream_externo v then [] else [StreamStop])"
      using r(2) p by simp
    moreover have "DetectorMovimentoStop \<notin> set ([StreamStart, Sleep, DetectorMovimentoStart] @ ev)"
      "StreamStop \<notin> set ([StreamStart, Sleep, DetectorMovimentoStart] @ ev)"
      using p by simp_all
    ultimately show ?thesis by blast
  qed
  have d: "run v t1 t2 t3 ins \<noteq> None"
    if "stream v \<noteq> None" "detectorPessoas v \<noteq> None" "\<exists>e \<in> set ins. isl (leitura e)"
    using that laco_termina_na_falha [of ins v]
    by (auto simp: run_def Let_def split: option.splits)
  from a b c d show ?thesis by blast
qed

lemma excecao_sem_encerramento:
  "run v t1 t2 t3 ins = Some (Some ex, v', evs) \<Longrightarrow>
   \<not> stopped v' \<and> DetectorMovimentoStop \<notin> set evs \<and> StreamStop \<notin> set evs"
proof -
  assume h: "run v t1 t2 t3 ins = Some (Some ex, v', evs)"
  let ?md = "ModoDeteccao_init (dpv_max_tempo_sem_deteccao v) (dpv_max_tempo_parado v)
               (dpv_usar_rastreamento v) 1 t1 t2 t3"
  from h obtain m ev where
    l: "laco v ?md ins = Some (Some ex, v', m, ev)" and
    r: "evs = [StreamStart, Sleep, DetectorMovimentoStart] @ ev"
    by (auto simp: run_def Let_def split: option.splits if_splits)
  from l have "DetectorMovimentoStop \<notin> set ev \<and> StreamStop \<notin> set ev \<and> \<not> stopped v'"
    using laco_preserva by blast
  with r show ?thesis by simp
qed

text \<open>
  The sibling way out: when it is the detector that raises, the handler of lines
  235 to 238 breaks and \<^verbatim>\<open>run\<close> stops the motion detector and the stream.
\<close>

lemma detector_falha_encerra:
  "map_option fst (run video_exemplo 0 0 0 [entrada_deteccao_falha]) = Some None
   \<and> map_option (\<lambda>r. snd (snd r)) (run video_exemplo 0 0 0 [entrada_deteccao_falha])
     = Some [StreamStart, Sleep, DetectorMovimentoStart, StreamRead, Detectar, Print,
             DetectorMovimentoStop, StreamStop]
   \<and> map_option (\<lambda>r. stopped (fst (snd r))) (run video_exemplo 0 0 0 [entrada_deteccao_falha])
     = Some True"
  by (simp add: exemplo)

text \<open>
  Claim C8 at a failing input. The object has its own stream and tracking
  enabled. In the first iteration the detector finds two people; the second,
  0.7 seconds later and with motion, is in mode \<^verbatim>\<open>'rastreando'\<close>, seeds the tracker
  and calls \<^verbatim>\<open>rastreador.atualiza\<close> (line 246), which raises. No handler of \<^verbatim>\<open>run\<close>
  encloses that call and lines 266 to 269 are in no \<^verbatim>\<open>finally\<close>: the exception
  leaves \<^verbatim>\<open>run\<close>, the last call made is the one to the tracker, neither the motion
  detector nor the stream is stopped, and the object is not marked stopped.
\<close>

theorem rastreador_falha_sem_encerramento:
  "map_option fst (run video_exemplo 0 0 0 [entrada_rapida, entrada_rastreador_falha])
     = Some (Some ''error'')
   \<and> map_option (\<lambda>r. snd (snd r))
        (run video_exemplo 0 0 0 [entrada_rapida, entrada_rastreador_falha])
     = Some [StreamStart, Sleep, DetectorMovimentoStart,
             StreamRead, Detectar,
             RegistroAtualizar [(1, 1, 5, 5), (2, 2, 5, 5)] [1 / 2, 3 / 5] False,
             HistoricoAtualizaPeriodo 2, ForceMinimumLoopPeriod,
             StreamRead, RastreadorReiniciar,
             RastreadorAdiciona [(1, 1, 5, 5), (2, 2, 5, 5)],
             RastreadorAtualiza]
   \<and> map_option (\<lambda>r. stopped (fst (snd r)))
        (run video_exemplo 0 0 0 [entrada_rapida, entrada_rastreador_falha])
     = Some False"
  by (simp add: exemplo)

end
